theory Spec2Isabelle
  imports Complex_Main
begin

section \<open>Data model\<close>

text \<open>
  The program is the single module \<^verbatim>\<open>src/index.js\<close>. JavaScript numbers are modelled
  as \<^typ>\<open>real\<close>; a landmark \<^verbatim>\<open>[x, y, z]\<close> is a triple. A read of an array
  element out of range gives \<^verbatim>\<open>undefined\<close> (here \<^term>\<open>None\<close>), and reading a property
  of \<^verbatim>\<open>undefined\<close> throws a \<^verbatim>\<open>TypeError\<close>.
\<close>

type_synonym vec3 = "real \<times> real \<times> real"

record prediction =
  landmarks :: "vec3 list"

datatype frame_error = TypeError

definition js_index :: "'a list \<Rightarrow> nat \<Rightarrow> 'a option" where
  "js_index xs i = (if i < length xs then Some (xs ! i) else None)"

text \<open>\<^verbatim>\<open>fingerLookupIndices\<close> (lines 30 to 36): an object literal, whose keys are
  enumerated by \<^verbatim>\<open>Object.keys\<close> in the order they are written.\<close>

definition thumb :: "nat list" where
  "thumb = [0, 1, 2, 3, 4]"

definition indexFinger :: "nat list" where
  "indexFinger = [0, 5, 6, 7, 8]"

definition middleFinger :: "nat list" where
  "middleFinger = [0, 9, 10, 11, 12]"

definition ringFinger :: "nat list" where
  "ringFinger = [0, 13, 14, 15, 16]"

definition pinky :: "nat list" where
  "pinky = [0, 17, 18, 19, 20]"

definition fingerLookupIndices :: "(string \<times> nat list) list" where
  "fingerLookupIndices =
     [(''thumb'', thumb), (''indexFinger'', indexFinger), (''middleFinger'', middleFinger),
      (''ringFinger'', ringFinger), (''pinky'', pinky)]"

definition VIDEO_WIDTH :: real where
  "VIDEO_WIDTH = 640"

definition VIDEO_HEIGHT :: real where
  "VIDEO_HEIGHT = 500"

text \<open>\<^verbatim>\<open>const renderPointcloud = mobile === false\<close> (line 49); \<^verbatim>\<open>mobile\<close> is the result
  of the user-agent test and is a parameter of the model.\<close>

definition renderPointcloud :: "bool \<Rightarrow> bool" where
  "renderPointcloud mobile = (mobile = False)"

section \<open>The 2D overlay\<close>

text \<open>The 2D context is modelled by the sequence of operations issued on it. A
  \<^verbatim>\<open>Path2D\<close> region is the sequence of its path commands.\<close>

datatype path_cmd = MoveTo real real | LineTo real real | ClosePath

datatype canvas_op =
    ClearRect real real real real
  | SetStrokeStyle string
  | SetFillStyle string
  | Translate real real
  | Scale real real
  | DrawImage real real real real
  | BeginPath
  | Arc real real real real real
  | Fill
  | Stroke "path_cmd list"

text \<open>\<^verbatim>\<open>drawPoint(ctx, y, x, r)\<close> (lines 74 to 78); the parameter order is the source's.\<close>

definition drawPoint :: "canvas_op list \<Rightarrow> real \<Rightarrow> real \<Rightarrow> real \<Rightarrow> canvas_op list" where
  "drawPoint ctx y x r = ctx @ [BeginPath, Arc x y r 0 (2 * pi), Fill]"

text \<open>\<^verbatim>\<open>drawPath\<close> (lines 97 to 109). The loop over \<^verbatim>\<open>points[1..]\<close> extends the region;
  an \<^verbatim>\<open>undefined\<close> point throws before anything is stroked.\<close>

fun drawPath_lineTo :: "path_cmd list \<Rightarrow> vec3 option list \<Rightarrow> frame_error + path_cmd list" where
  "drawPath_lineTo region [] = Inr region"
| "drawPath_lineTo region (None # rest) = Inl TypeError"
| "drawPath_lineTo region (Some (p0, p1, p2) # rest) = drawPath_lineTo (region @ [LineTo p0 p1]) rest"

definition drawPath :: "canvas_op list \<Rightarrow> vec3 option list \<Rightarrow> bool \<Rightarrow> frame_error + canvas_op list" where
  "drawPath ctx points closePath =
     (case points of
        [] \<Rightarrow> Inl TypeError
      | None # rest \<Rightarrow> Inl TypeError
      | Some (p0, p1, p2) # rest \<Rightarrow>
          (case drawPath_lineTo [MoveTo p0 p1] rest of
             Inl e \<Rightarrow> Inl e
           | Inr region \<Rightarrow>
               Inr (ctx @ [Stroke (if closePath then region @ [ClosePath] else region)])))"

text \<open>\<^verbatim>\<open>drawKeypoints\<close> (lines 80 to 95): first loop, one \<^verbatim>\<open>drawPoint\<close> per keypoint, with
  the source's local names \<^verbatim>\<open>y = keypoints[i][0]\<close> and \<^verbatim>\<open>x = keypoints[i][1]\<close>.\<close>

fun drawKeypoints_points :: "canvas_op list \<Rightarrow> vec3 list \<Rightarrow> canvas_op list" where
  "drawKeypoints_points ctx [] = ctx"
| "drawKeypoints_points ctx ((k0, k1, k2) # rest) =
     (let y = k0; x = k1 in drawKeypoints_points (drawPoint ctx (x - 2) (y - 2) 3) rest)"

text \<open>Second loop: one \<^verbatim>\<open>drawPath(ctx, points, false)\<close> per key of the table.\<close>

fun drawKeypoints_fingers ::
  "canvas_op list \<Rightarrow> vec3 list \<Rightarrow> string list \<Rightarrow> frame_error + canvas_op list" where
  "drawKeypoints_fingers ctx keypoints [] = Inr ctx"
| "drawKeypoints_fingers ctx keypoints (finger # rest) =
     (case map_of fingerLookupIndices finger of
        None \<Rightarrow> Inl TypeError
      | Some idxs \<Rightarrow>
          (case drawPath ctx (map (js_index keypoints) idxs) False of
             Inl e \<Rightarrow> Inl e
           | Inr ctx' \<Rightarrow> drawKeypoints_fingers ctx' keypoints rest))"

definition drawKeypoints :: "canvas_op list \<Rightarrow> vec3 list \<Rightarrow> frame_error + canvas_op list" where
  "drawKeypoints ctx keypoints =
     drawKeypoints_fingers (drawKeypoints_points ctx keypoints) keypoints
       (map fst fingerLookupIndices)"

section \<open>The 3D scene\<close>

text \<open>
  A scene-graph object has an identity (the number below) and a position; a sphere mesh
  carries the position it was given by \<^verbatim>\<open>mesh.position.set(x, y, z)\<close>, a line carries
  the points of its geometry and stays at the origin. Every mesh is built with the
  same sphere geometry and material, every line with the same material, so these are
  not recorded.
\<close>

datatype object3d = Mesh nat vec3 | Line nat "vec3 list"

fun object_id :: "object3d \<Rightarrow> nat" where
  "object_id (Mesh n p) = n"
| "object_id (Line n ps) = n"

fun position :: "object3d \<Rightarrow> vec3" where
  "position (Mesh n p) = p"
| "position (Line n ps) = (0, 0, 0)"

fun line_points :: "object3d \<Rightarrow> vec3 list" where
  "line_points (Mesh n p) = []"
| "line_points (Line n ps) = ps"

fun is_sphere :: "object3d \<Rightarrow> bool" where
  "is_sphere (Mesh n p) = True"
| "is_sphere (Line n ps) = False"

fun is_line :: "object3d \<Rightarrow> bool" where
  "is_line (Mesh n p) = False"
| "is_line (Line n ps) = True"

record group =
  children :: "object3d list"

text \<open>\<^verbatim>\<open>group.add(object)\<close> for an object that has no parent yet, and
  \<^verbatim>\<open>group.remove(object)\<close>: the first entry identical to the object is spliced out,
  and removing \<^verbatim>\<open>undefined\<close> changes nothing.\<close>

definition group_add :: "object3d \<Rightarrow> group \<Rightarrow> group" where
  "group_add obj g = g\<lparr>children := children g @ [obj]\<rparr>"

fun group_remove :: "object3d option \<Rightarrow> group \<Rightarrow> group" where
  "group_remove None g = g"
| "group_remove (Some obj) g = g\<lparr>children := remove1 obj (children g)\<rparr>"

text \<open>\<^verbatim>\<open>removeMesh\<close> (lines 293 to 297): the loop counts \<^verbatim>\<open>i\<close> down from
  \<^verbatim>\<open>group.children.length - 1\<close> while \<^verbatim>\<open>i >= 0\<close>, and reads \<^verbatim>\<open>group.children[i]\<close> from the
  collection as the removals so far have left it.\<close>

function removeMesh_loop :: "int \<Rightarrow> group \<Rightarrow> group" where
  "removeMesh_loop i g =
     (if i \<ge> 0 then removeMesh_loop (i - 1) (group_remove (js_index (children g) (nat i)) g)
      else g)"
  by pat_completeness auto
termination
  by (relation "measure (\<lambda>(i, g). nat (i + 1))") auto

definition removeMesh :: "group \<Rightarrow> group" where
  "removeMesh g = removeMesh_loop (int (length (children g)) - 1) g"

text \<open>The children of the scene: the two lights added by \<^verbatim>\<open>initFingers\<close> and the two
  groups. \<^verbatim>\<open>scene.add(object)\<close> detaches the object from its parent first, which for a
  group is the scene itself, and then appends it.\<close>

datatype scene_child = AmbientLight | DirectionalLight | NodeGroup | HandLineGroup

definition scene_add :: "scene_child \<Rightarrow> scene_child list \<Rightarrow> scene_child list" where
  "scene_add obj cs = remove1 obj cs @ [obj]"

text \<open>The module's variables that the frame handler and the debug panel read or
  write. \<^verbatim>\<open>state.renderPointcloud\<close> is absent on a mobile target.\<close>

record hand_state =
  ctx :: "canvas_op list"
  videoWidth :: real
  videoHeight :: real
  canvas_width :: real
  canvas_height :: real
  nodeGroup :: group
  handLineGroup :: group
  scene :: "scene_child list"
  nextObjectId :: nat
  state_renderPointcloud :: "bool option"
  scatter_gl_display :: string

text \<open>\<^verbatim>\<open>drawFingerNode(x, y, z)\<close> (lines 256 to 268).\<close>

definition drawFingerNode :: "real \<Rightarrow> real \<Rightarrow> real \<Rightarrow> hand_state \<Rightarrow> hand_state" where
  "drawFingerNode x y z st =
     (let mesh = Mesh (nextObjectId st) (x, y, z)
      in st\<lparr>nodeGroup := group_add mesh (nodeGroup st), nextObjectId := Suc (nextObjectId st)\<rparr>)"

text \<open>The loop of lines 159 to 161 over the indices it visits.\<close>

fun drawFingerNodes :: "vec3 list \<Rightarrow> nat list \<Rightarrow> hand_state \<Rightarrow> frame_error + hand_state" where
  "drawFingerNodes pointsData [] st = Inr st"
| "drawFingerNodes pointsData (i # rest) st =
     (case js_index pointsData i of
        None \<Rightarrow> Inl TypeError
      | Some (p0, p1, p2) \<Rightarrow>
          drawFingerNodes pointsData rest
            (drawFingerNode (p0 + VIDEO_WIDTH) (p1 + VIDEO_HEIGHT) p2 st))"

text \<open>\<^verbatim>\<open>drawFingerMesh(points, geometry, line, idx1, idx2)\<close> (lines 282 to 291): the
  pushes of \<^verbatim>\<open>nodeGroup.children[i].position\<close> over the indices visited, then the new
  line. \<^verbatim>\<open>geometry\<close> and \<^verbatim>\<open>line\<close> are overwritten before they are read.\<close>

fun push_positions :: "object3d list \<Rightarrow> nat list \<Rightarrow> vec3 list \<Rightarrow> frame_error + vec3 list" where
  "push_positions cs [] points = Inr points"
| "push_positions cs (i # rest) points =
     (case js_index cs i of
        None \<Rightarrow> Inl TypeError
      | Some c \<Rightarrow> push_positions cs rest (points @ [position c]))"

definition drawFingerMesh ::
  "vec3 list \<Rightarrow> nat \<Rightarrow> nat \<Rightarrow> hand_state \<Rightarrow> frame_error + hand_state" where
  "drawFingerMesh points idx1 idx2 st =
     (case push_positions (children (nodeGroup st)) (0 # [idx1..<Suc idx2]) points of
        Inl e \<Rightarrow> Inl e
      | Inr points' \<Rightarrow>
          Inr (st\<lparr>handLineGroup := group_add (Line (nextObjectId st) points') (handLineGroup st),
                  nextObjectId := Suc (nextObjectId st)\<rparr>))"

text \<open>\<^verbatim>\<open>initHandPose\<close> (lines 270 to 280): five calls in sequence, each with a fresh
  empty \<^verbatim>\<open>points\<close> array.\<close>

definition initHandPose :: "hand_state \<Rightarrow> frame_error + hand_state" where
  "initHandPose st =
     (case drawFingerMesh [] (thumb ! 1) (thumb ! 4) st of Inl e \<Rightarrow> Inl e | Inr st1 \<Rightarrow>
     (case drawFingerMesh [] (indexFinger ! 1) (indexFinger ! 4) st1 of Inl e \<Rightarrow> Inl e | Inr st2 \<Rightarrow>
     (case drawFingerMesh [] (middleFinger ! 1) (middleFinger ! 4) st2 of Inl e \<Rightarrow> Inl e | Inr st3 \<Rightarrow>
     (case drawFingerMesh [] (ringFinger ! 1) (ringFinger ! 4) st3 of Inl e \<Rightarrow> Inl e | Inr st4 \<Rightarrow>
      drawFingerMesh [] (pinky ! 1) (pinky ! 4) st4))))"

section \<open>The frame handler\<close>

text \<open>\<^verbatim>\<open>frameLandmarks\<close> (lines 143 to 171), from the video frame being drawn to the
  point where the next frame is requested; \<^verbatim>\<open>predictions\<close> is what
  \<^verbatim>\<open>model.estimateHands\<close> resolved to. An exception leaves the handler before the next
  frame is requested. The frame-rate meter is not modelled.\<close>

definition frameLandmarks ::
  "bool \<Rightarrow> prediction list \<Rightarrow> hand_state \<Rightarrow> frame_error + hand_state" where
  "frameLandmarks mobile predictions st =
     (let st0 = st\<lparr>ctx := ctx st @
                   [DrawImage (videoWidth st) (videoHeight st) (canvas_width st) (canvas_height st)]\<rparr>
      in case predictions of
           [] \<Rightarrow> Inr st0
         | p # others \<Rightarrow>
             (let result = landmarks p in
              case drawKeypoints (ctx st0) result of
                Inl e \<Rightarrow> Inl e
              | Inr ctx' \<Rightarrow>
                  (let st1 = st0\<lparr>ctx := ctx'\<rparr> in
                   if renderPointcloud mobile = True then
                     (let pointsData = map (\<lambda>(p0, p1, p2). (- p0, - p1, - p2)) result;
                          st2 = st1\<lparr>nodeGroup := removeMesh (nodeGroup st1)\<rparr>;
                          st3 = st2\<lparr>handLineGroup := removeMesh (handLineGroup st2)\<rparr>
                      in case drawFingerNodes pointsData [0..<21] st3 of
                           Inl e \<Rightarrow> Inl e
                         | Inr st4 \<Rightarrow>
                             (case initHandPose st4 of
                                Inl e \<Rightarrow> Inl e
                              | Inr st5 \<Rightarrow>
                                  Inr (st5\<lparr>scene :=
                                        scene_add HandLineGroup (scene_add NodeGroup (scene st5))\<rparr>)))
                   else Inr st1)))"

text \<open>The state in which the first frame's predictions arrive: \<^verbatim>\<open>landmarksRealTime\<close>
  (lines 188 to 219) has sized the canvas to the video and mirrored the context, and
  \<^verbatim>\<open>initFingers\<close> (lines 226 to 254) has created the scene with its two lights. The
  groups were created empty at line 57. The initial style of the point-cloud container
  comes from the page and is a parameter.\<close>

definition landmarksRealTime :: "bool \<Rightarrow> real \<Rightarrow> real \<Rightarrow> string \<Rightarrow> hand_state" where
  "landmarksRealTime mobile vw vh display =
     \<lparr>ctx = [ClearRect 0 0 vw vh, SetStrokeStyle ''red'', SetFillStyle ''red'',
             Translate vw 0, Scale (- 1) 1],
      videoWidth = vw, videoHeight = vh, canvas_width = vw, canvas_height = vh,
      nodeGroup = \<lparr>children = []\<rparr>, handLineGroup = \<lparr>children = []\<rparr>,
      scene = [AmbientLight, DirectionalLight],
      nextObjectId = 0,
      state_renderPointcloud = (if renderPointcloud mobile then Some True else None),
      scatter_gl_display = display\<rparr>"

section \<open>The debug panel\<close>

text \<open>\<^verbatim>\<open>setupDatGui\<close> (lines 63 to 72) registers one handler, on a control that exists
  only when \<^verbatim>\<open>renderPointcloud\<close> holds. When the user sets the control to \<^verbatim>\<open>render\<close>, the
  panel stores the value in \<^verbatim>\<open>state.renderPointcloud\<close> and calls the handler.\<close>

definition setupDatGui_onChange :: "bool \<Rightarrow> hand_state \<Rightarrow> hand_state" where
  "setupDatGui_onChange render st =
     st\<lparr>scatter_gl_display := (if render then ''inline-block'' else ''none'')\<rparr>"

definition toggle_renderPointcloud :: "bool \<Rightarrow> bool \<Rightarrow> hand_state \<Rightarrow> hand_state" where
  "toggle_renderPointcloud mobile render st =
     (if renderPointcloud mobile
      then setupDatGui_onChange render (st\<lparr>state_renderPointcloud := Some render\<rparr>)
      else st)"

section \<open>The frame loop and what the scene holds\<close>

text \<open>Each invocation that returns requests the next one (line 170); an invocation that
  throws requests none. The loop over the predictions of a finite run of frames:\<close>

fun frameLandmarks_loop ::
  "bool \<Rightarrow> prediction list list \<Rightarrow> hand_state \<Rightarrow> frame_error + hand_state" where
  "frameLandmarks_loop mobile [] st = Inr st"
| "frameLandmarks_loop mobile (predictions # later) st =
     (case frameLandmarks mobile predictions st of
        Inl e \<Rightarrow> Inl e
      | Inr st' \<Rightarrow> frameLandmarks_loop mobile later st')"

text \<open>The objects the renderer reaches from the scene: the children of each group that
  is a child of the scene.\<close>

definition scene_objects :: "hand_state \<Rightarrow> object3d list" where
  "scene_objects st =
     (if NodeGroup \<in> set (scene st) then children (nodeGroup st) else []) @
     (if HandLineGroup \<in> set (scene st) then children (handLineGroup st) else [])"

definition sphere_count :: "hand_state \<Rightarrow> nat" where
  "sphere_count st = length (filter is_sphere (scene_objects st))"

definition line_count :: "hand_state \<Rightarrow> nat" where
  "line_count st = length (filter is_line (scene_objects st))"

definition is_point_draw :: "canvas_op \<Rightarrow> bool" where
  "is_point_draw op = (op = Fill)"

fun is_polyline_draw :: "canvas_op \<Rightarrow> bool" where
  "is_polyline_draw (Stroke region) = True"
| "is_polyline_draw op = False"

section \<open>Camera setup and start-up\<close>

text \<open>
  A rejected promise carries the value thrown: the \<^verbatim>\<open>Error\<close> of line 113, or the
  exception (name and message) with which the browser rejects \<^verbatim>\<open>getUserMedia\<close>. An
  awaited promise is fulfilled, rejected, or never settled.
\<close>

datatype setup_error = Error string | DOMException string string

fun message :: "setup_error \<Rightarrow> string" where
  "message (Error m) = m"
| "message (DOMException n m) = m"

datatype 'a outcome = Fulfilled 'a | Rejected setup_error | Pending

type_synonym media_stream = nat

record video_constraints =
  facingMode :: string
  width :: "real option"
  height :: "real option"

record constraints =
  audio :: bool
  video :: video_constraints

record media_devices =
  getUserMedia :: "(constraints \<Rightarrow> media_stream outcome) option"

record navigator =
  mediaDevices :: "media_devices option"

text \<open>What the page's environment decides: the camera API, whether the model loads,
  and whether the video element reports its metadata once it has a stream.\<close>

record browser =
  navigator :: navigator
  handpose_load :: "unit outcome"
  loadedmetadata :: bool

text \<open>\<^verbatim>\<open>setupCamera\<close> (lines 111 to 135).\<close>

definition setupCamera :: "bool \<Rightarrow> browser \<Rightarrow> media_stream outcome" where
  "setupCamera mobile env =
     (case mediaDevices (navigator env) of
        None \<Rightarrow> Rejected (Error ''Browser API navigator.mediaDevices.getUserMedia not available'')
      | Some md \<Rightarrow>
          (case getUserMedia md of
             None \<Rightarrow>
               Rejected (Error ''Browser API navigator.mediaDevices.getUserMedia not available'')
           | Some request \<Rightarrow>
               (case request \<lparr>audio = False,
                              video = \<lparr>facingMode = ''user'',
                                       width = (if mobile then None else Some VIDEO_WIDTH),
                                       height = (if mobile then None else Some VIDEO_HEIGHT)\<rparr>\<rparr> of
                  Rejected e \<Rightarrow> Rejected e
                | Pending \<Rightarrow> Pending
                | Fulfilled stream \<Rightarrow> (if loadedmetadata env then Fulfilled stream else Pending))))"

text \<open>\<^verbatim>\<open>loadVideo\<close> (lines 137 to 141).\<close>

definition loadVideo :: "bool \<Rightarrow> browser \<Rightarrow> media_stream outcome" where
  "loadVideo mobile env =
     (case setupCamera mobile env of
        Rejected e \<Rightarrow> Rejected e
      | Pending \<Rightarrow> Pending
      | Fulfilled v \<Rightarrow> Fulfilled v)"

text \<open>The part of the page that \<^verbatim>\<open>main\<close> touches: the \<^verbatim>\<open>info\<close> element, and whether
  \<^verbatim>\<open>landmarksRealTime\<close> has been called, which makes the first call of
  \<^verbatim>\<open>frameLandmarks\<close> (line 214).\<close>

record page =
  info_textContent :: string
  info_display :: string
  frameLoopStarted :: bool

text \<open>\<^verbatim>\<open>main\<close> (lines 173 to 186).\<close>

definition main :: "bool \<Rightarrow> browser \<Rightarrow> page \<Rightarrow> page \<times> unit outcome" where
  "main mobile env pg =
     (case handpose_load env of
        Rejected e \<Rightarrow> (pg, Rejected e)
      | Pending \<Rightarrow> (pg, Pending)
      | Fulfilled m \<Rightarrow>
          (case loadVideo mobile env of
             Rejected e \<Rightarrow>
               (pg\<lparr>info_textContent := message e, info_display := ''block''\<rparr>, Rejected e)
           | Pending \<Rightarrow> (pg, Pending)
           | Fulfilled v \<Rightarrow> (pg\<lparr>frameLoopStarted := True\<rparr>, Fulfilled ())))"

section \<open>The direct construction of the finger lines\<close>

text \<open>
  The specification's alternative to reading the sphere positions back: transform each
  landmark (negate the three coordinates, then offset x by the video width and y by the
  video height) and index the transformed coordinates with each finger's table entry.
\<close>

definition spec_negate :: "vec3 \<Rightarrow> vec3" where
  "spec_negate p = (case p of (x, y, z) \<Rightarrow> (- x, - y, - z))"

definition spec_offset :: "vec3 \<Rightarrow> vec3" where
  "spec_offset p = (case p of (x, y, z) \<Rightarrow> (x + VIDEO_WIDTH, y + VIDEO_HEIGHT, z))"

definition spec_transformed :: "vec3 list \<Rightarrow> vec3 list" where
  "spec_transformed lms = map (spec_offset \<circ> spec_negate) lms"

definition spec_finger_lines :: "vec3 list \<Rightarrow> vec3 list list" where
  "spec_finger_lines lms =
     map (\<lambda>(finger, idxs). map (\<lambda>i. spec_transformed lms ! i) idxs) fingerLookupIndices"

section \<open>Sample inputs\<close>

definition sample_hand :: "vec3 list" where
  "sample_hand =
     [(320, 400, 0),
      (280, 380, -5), (250, 350, -8), (230, 320, -10), (215, 295, -12),
      (290, 300, -4), (285, 260, -9), (282, 235, -13), (280, 210, -16),
      (320, 295, -5), (320, 250, -10), (320, 222, -14), (320, 195, -17),
      (348, 300, -7), (352, 260, -12), (354, 235, -15), (356, 212, -18),
      (375, 315, -9), (385, 285, -13), (391, 265, -16), (396, 248, -18)]"

definition sample_prediction :: prediction where
  "sample_prediction = \<lparr>landmarks = sample_hand\<rparr>"

definition sample_browser_unsupported :: browser where
  "sample_browser_unsupported =
     \<lparr>navigator = \<lparr>mediaDevices = None\<rparr>, handpose_load = Fulfilled (), loadedmetadata = True\<rparr>"

definition sample_browser_denied :: browser where
  "sample_browser_denied =
     \<lparr>navigator = \<lparr>mediaDevices =
        Some \<lparr>getUserMedia = Some (\<lambda>c. Rejected (DOMException ''NotAllowedError'' ''Permission denied''))\<rparr>\<rparr>,
      handpose_load = Fulfilled (), loadedmetadata = True\<rparr>"

definition sample_page :: page where
  "sample_page = \<lparr>info_textContent = [], info_display = ''none'', frameLoopStarted = False\<rparr>"

section \<open>Notation for what a frame draws and builds\<close>

text \<open>
  Shorthand for the terms the results below are stated with: the operations of one
  \<^verbatim>\<open>drawPoint\<close> call for a keypoint, the path commands for a point, the stroke of one
  finger's polyline, the position at which line 160 places the sphere of a landmark,
  the line built from the positions of the children at a finger's indices, the 21
  spheres and 5 lines of one frame with their identities, the canvas operations of
  one frame with a hand, an update of the two fields the debug panel owns, and the
  state after a frame with a hand when the point cloud is rendered.
\<close>

abbreviation point_circle :: "vec3 \<Rightarrow> canvas_op list" where
  "point_circle p \<equiv> (case p of (x, y, z) \<Rightarrow> [BeginPath, Arc (x - 2) (y - 2) 3 0 (2 * pi), Fill])"

abbreviation lineTo_of :: "vec3 \<Rightarrow> path_cmd" where
  "lineTo_of p \<equiv> (case p of (x, y, z) \<Rightarrow> LineTo x y)"

abbreviation moveTo_of :: "vec3 \<Rightarrow> path_cmd" where
  "moveTo_of p \<equiv> (case p of (x, y, z) \<Rightarrow> MoveTo x y)"

abbreviation finger_polyline :: "vec3 list \<Rightarrow> nat list \<Rightarrow> canvas_op" where
  "finger_polyline kps idxs \<equiv>
     Stroke (moveTo_of (kps ! hd idxs) # map (\<lambda>i. lineTo_of (kps ! i)) (tl idxs))"

abbreviation placed :: "vec3 \<Rightarrow> vec3" where
  "placed p \<equiv> (case p of (x, y, z) \<Rightarrow> (- x + VIDEO_WIDTH, - y + VIDEO_HEIGHT, - z))"

abbreviation finger_line :: "object3d list \<Rightarrow> nat \<Rightarrow> nat list \<Rightarrow> object3d" where
  "finger_line cs n idxs \<equiv> Line n (map (\<lambda>i. position (cs ! i)) idxs)"

abbreviation new_spheres :: "nat \<Rightarrow> vec3 list \<Rightarrow> object3d list" where
  "new_spheres n lms \<equiv> map (\<lambda>i. Mesh (n + i) (placed (lms ! i))) [0..<21]"

abbreviation new_lines :: "nat \<Rightarrow> object3d list \<Rightarrow> object3d list" where
  "new_lines n cs \<equiv>
     [finger_line cs n thumb, finger_line cs (n + 1) indexFinger,
      finger_line cs (n + 2) middleFinger, finger_line cs (n + 3) ringFinger,
      finger_line cs (n + 4) pinky]"

abbreviation frame_ops :: "hand_state \<Rightarrow> vec3 list \<Rightarrow> canvas_op list" where
  "frame_ops st lms \<equiv>
     DrawImage (videoWidth st) (videoHeight st) (canvas_width st) (canvas_height st) #
     concat (map point_circle lms) @
     map (\<lambda>(finger, idxs). finger_polyline lms idxs) fingerLookupIndices"

abbreviation with_gui :: "bool option \<Rightarrow> string \<Rightarrow> hand_state \<Rightarrow> hand_state" where
  "with_gui a b st \<equiv> st\<lparr>state_renderPointcloud := a, scatter_gl_display := b\<rparr>"

abbreviation hand_frame :: "hand_state \<Rightarrow> vec3 list \<Rightarrow> hand_state" where
  "hand_frame st lms \<equiv>
     st\<lparr>ctx := ctx st @ frame_ops st lms,
        nodeGroup := \<lparr>children = new_spheres (nextObjectId st) lms\<rparr>,
        handLineGroup := \<lparr>children = new_lines (nextObjectId st + 21) (new_spheres (nextObjectId st) lms)\<rparr>,
        scene := scene_add HandLineGroup (scene_add NodeGroup (scene st)),
        nextObjectId := nextObjectId st + 26\<rparr>"

section \<open>Emptying a group\<close>

declare removeMesh_loop.simps [simp del]

lemma js_index_last:
  "cs \<noteq> [] \<Longrightarrow> js_index cs (nat (int (length cs) - 1)) = Some (last cs)"
  by (simp add: js_index_def last_conv_nth nat_diff_distrib')

lemma removeMesh_loop_empty:
  "i = int (length (children g)) - 1 \<Longrightarrow> children (removeMesh_loop i g) = []"
proof (induction i g rule: removeMesh_loop.induct)
  case (1 i g)
  show ?case
  proof (cases "children g = []")
    case True
    with "1.prems" have "i = - 1" by simp
    then show ?thesis using True by (subst removeMesh_loop.simps) simp
  next
    case False
    let ?g' = "group_remove (js_index (children g) (nat i)) g"
    from False "1.prems" have pos: "i \<ge> 0" by (cases "children g") auto
    from False "1.prems" have idx: "js_index (children g) (nat i) = Some (last (children g))"
      using js_index_last by simp
    have "length (children ?g') = length (children g) - 1"
      using False by (simp add: idx length_remove1)
    with False "1.prems" have "i - 1 = int (length (children ?g')) - 1"
      by (cases "children g") auto
    from "1.IH"[OF pos this] pos show ?thesis
      by (subst removeMesh_loop.simps) simp
  qed
qed

lemma children_removeMesh: "children (removeMesh g) = []"
  by (simp add: removeMesh_def removeMesh_loop_empty)

text \<open>
  Claim C10. For every group, whatever its children and however many, the group has no
  children after one call of \<^verbatim>\<open>removeMesh\<close>: the loop that counts down from the last
  index removes a child in each iteration although each removal shortens the
  collection it indexes.
\<close>

theorem C10_removeMesh_empties_group:
  "children (removeMesh g) = [] \<and> length (children (removeMesh g)) = 0"
  by (simp add: removeMesh_def removeMesh_loop_empty)

section \<open>What the keypoint renderer issues\<close>

lemma drawKeypoints_points_trace:
  "drawKeypoints_points c kps = c @ concat (map point_circle kps)"
  by (induction kps arbitrary: c) (auto simp: drawPoint_def)

lemma drawPath_lineTo_defined:
  "\<forall>i \<in> set idxs. i < length kps \<Longrightarrow>
   drawPath_lineTo region (map (js_index kps) idxs) =
     Inr (region @ map (\<lambda>i. lineTo_of (kps ! i)) idxs)"
proof (induction idxs arbitrary: region)
  case Nil
  then show ?case by simp
next
  case (Cons i idxs)
  obtain x y z where p: "kps ! i = (x, y, z)" by (cases "kps ! i")
  from Cons.prems have "js_index kps i = Some (x, y, z)" by (simp add: js_index_def p)
  with Cons show ?case by (simp add: p)
qed

lemma drawPath_open_defined:
  assumes "\<forall>i \<in> set (a # idxs). i < length kps"
  shows "drawPath c (map (js_index kps) (a # idxs)) False =
     Inr (c @ [Stroke (moveTo_of (kps ! a) # map (\<lambda>i. lineTo_of (kps ! i)) idxs)])"
proof -
  obtain x y z where p: "kps ! a = (x, y, z)" by (cases "kps ! a")
  from assms have a: "js_index kps a = Some (x, y, z)" by (simp add: js_index_def p)
  from assms have "\<forall>i \<in> set idxs. i < length kps" by simp
  from drawPath_lineTo_defined[OF this] a show ?thesis
    by (simp add: drawPath_def p)
qed

lemma map_of_fingers:
  "map_of fingerLookupIndices ''thumb'' = Some thumb"
  "map_of fingerLookupIndices ''indexFinger'' = Some indexFinger"
  "map_of fingerLookupIndices ''middleFinger'' = Some middleFinger"
  "map_of fingerLookupIndices ''ringFinger'' = Some ringFinger"
  "map_of fingerLookupIndices ''pinky'' = Some pinky"
  by (simp_all add: fingerLookupIndices_def)

lemma drawKeypoints_fingers_trace:
  assumes "length kps = 21"
  shows "drawKeypoints_fingers c kps (map fst fingerLookupIndices) =
     Inr (c @ map (\<lambda>(finger, idxs). finger_polyline kps idxs) fingerLookupIndices)"
proof -
  have t: "drawPath c' (map (js_index kps) thumb) False = Inr (c' @ [finger_polyline kps thumb])" for c'
    using drawPath_open_defined[of 0 "[1,2,3,4]" kps c'] assms by (simp add: thumb_def)
  have i: "drawPath c' (map (js_index kps) indexFinger) False = Inr (c' @ [finger_polyline kps indexFinger])" for c'
    using drawPath_open_defined[of 0 "[5,6,7,8]" kps c'] assms by (simp add: indexFinger_def)
  have m: "drawPath c' (map (js_index kps) middleFinger) False = Inr (c' @ [finger_polyline kps middleFinger])" for c'
    using drawPath_open_defined[of 0 "[9,10,11,12]" kps c'] assms by (simp add: middleFinger_def)
  have r: "drawPath c' (map (js_index kps) ringFinger) False = Inr (c' @ [finger_polyline kps ringFinger])" for c'
    using drawPath_open_defined[of 0 "[13,14,15,16]" kps c'] assms by (simp add: ringFinger_def)
  have p: "drawPath c' (map (js_index kps) pinky) False = Inr (c' @ [finger_polyline kps pinky])" for c'
    using drawPath_open_defined[of 0 "[17,18,19,20]" kps c'] assms by (simp add: pinky_def)
  have keys: "map fst fingerLookupIndices = [''thumb'', ''indexFinger'', ''middleFinger'', ''ringFinger'', ''pinky'']"
    by (simp add: fingerLookupIndices_def)
  have tbl: "map (\<lambda>(finger, idxs). finger_polyline kps idxs) fingerLookupIndices =
     [finger_polyline kps thumb, finger_polyline kps indexFinger, finger_polyline kps middleFinger,
      finger_polyline kps ringFinger, finger_polyline kps pinky]"
    by (simp add: fingerLookupIndices_def)
  show ?thesis
    unfolding keys tbl by (simp add: map_of_fingers t i m r p)
qed

lemma drawKeypoints_trace:
  assumes "length kps = 21"
  shows "drawKeypoints c kps =
     Inr (c @ concat (map point_circle kps) @
          map (\<lambda>(finger, idxs). finger_polyline kps idxs) fingerLookupIndices)"
  by (simp add: drawKeypoints_def drawKeypoints_points_trace drawKeypoints_fingers_trace[OF assms])

section \<open>What the scene builders produce\<close>

lemma drawFingerNodes_append:
  "drawFingerNodes pd (xs @ ys) st =
     (case drawFingerNodes pd xs st of Inl e \<Rightarrow> Inl e | Inr st' \<Rightarrow> drawFingerNodes pd ys st')"
  by (induction xs arbitrary: st) (auto split: option.splits)

lemma drawFingerNodes_upt:
  "m \<le> length lms \<Longrightarrow>
   drawFingerNodes (map (\<lambda>(p0, p1, p2). (- p0, - p1, - p2)) lms) [0..<m] st =
     Inr (st\<lparr>nodeGroup := (nodeGroup st)\<lparr>children := children (nodeGroup st) @
                 map (\<lambda>i. Mesh (nextObjectId st + i) (placed (lms ! i))) [0..<m]\<rparr>,
             nextObjectId := nextObjectId st + m\<rparr>)"
proof (induction m)
  case 0
  show ?case by simp
next
  case (Suc m)
  obtain x y z where p: "lms ! m = (x, y, z)" by (cases "lms ! m")
  from Suc.prems have idx: "js_index (map (\<lambda>(p0, p1, p2). (- p0, - p1, - p2)) lms) m = Some (- x, - y, - z)"
    by (simp add: js_index_def p)
  from Suc show ?case
    by (simp add: drawFingerNodes_append idx drawFingerNode_def group_add_def p)
qed

lemma push_positions_defined:
  "\<forall>i \<in> set idxs. i < length cs \<Longrightarrow>
   push_positions cs idxs pts = Inr (pts @ map (\<lambda>i. position (cs ! i)) idxs)"
  by (induction idxs arbitrary: pts) (auto simp: js_index_def)

lemma drawFingerMesh_defined:
  assumes "\<forall>i \<in> set (0 # [idx1..<Suc idx2]). i < length (children (nodeGroup st))"
  shows "drawFingerMesh [] idx1 idx2 st =
     Inr (st\<lparr>handLineGroup := (handLineGroup st)\<lparr>children := children (handLineGroup st) @
                 [Line (nextObjectId st)
                    (map (\<lambda>i. position (children (nodeGroup st) ! i)) (0 # [idx1..<Suc idx2]))]\<rparr>,
             nextObjectId := Suc (nextObjectId st)\<rparr>)"
  unfolding drawFingerMesh_def push_positions_defined[OF assms]
  by (simp add: group_add_def)


lemma initHandPose_defined:
  assumes "length (children (nodeGroup st)) = 21"
  shows "initHandPose st =
     Inr (st\<lparr>handLineGroup := (handLineGroup st)\<lparr>children := children (handLineGroup st) @
                 [finger_line (children (nodeGroup st)) (nextObjectId st) thumb,
                  finger_line (children (nodeGroup st)) (nextObjectId st + 1) indexFinger,
                  finger_line (children (nodeGroup st)) (nextObjectId st + 2) middleFinger,
                  finger_line (children (nodeGroup st)) (nextObjectId st + 3) ringFinger,
                  finger_line (children (nodeGroup st)) (nextObjectId st + 4) pinky]\<rparr>,
             nextObjectId := nextObjectId st + 5\<rparr>)"
  unfolding initHandPose_def
  by (simp add: drawFingerMesh_defined assms upt_rec
      thumb_def indexFinger_def middleFinger_def ringFinger_def pinky_def)
    (simp add: eval_nat_numeral)

lemma removeMesh_eq: "removeMesh g = \<lparr>children = []\<rparr>"
  using children_removeMesh[of g] by (cases "removeMesh g") simp

lemma frameLandmarks_none:
  "frameLandmarks mobile [] st =
     Inr (st\<lparr>ctx := ctx st @
            [DrawImage (videoWidth st) (videoHeight st) (canvas_width st) (canvas_height st)]\<rparr>)"
  by (simp add: frameLandmarks_def)

lemma frameLandmarks_mobile:
  assumes "length (landmarks p) = 21"
  shows "frameLandmarks True (p # others) st =
     Inr (st\<lparr>ctx := ctx st @ frame_ops st (landmarks p)\<rparr>)"
  by (simp add: frameLandmarks_def Let_def drawKeypoints_trace[OF assms] renderPointcloud_def)

lemma frameLandmarks_hand:
  assumes len: "length (landmarks p) = 21"
  shows "frameLandmarks False (p # others) st =
     Inr (st\<lparr>ctx := ctx st @ frame_ops st (landmarks p),
             nodeGroup := \<lparr>children = new_spheres (nextObjectId st) (landmarks p)\<rparr>,
             handLineGroup := \<lparr>children =
               new_lines (nextObjectId st + 21) (new_spheres (nextObjectId st) (landmarks p))\<rparr>,
             scene := scene_add HandLineGroup (scene_add NodeGroup (scene st)),
             nextObjectId := nextObjectId st + 26\<rparr>)"
proof -
  define st1 where "st1 = st\<lparr>ctx := ctx st @ frame_ops st (landmarks p)\<rparr>"
  define st3 where "st3 = st1\<lparr>nodeGroup := \<lparr>children = []\<rparr>, handLineGroup := \<lparr>children = []\<rparr>\<rparr>"
  define st4 where "st4 = st3\<lparr>nodeGroup := \<lparr>children = new_spheres (nextObjectId st) (landmarks p)\<rparr>,
      nextObjectId := nextObjectId st + 21\<rparr>"
  have nodes: "drawFingerNodes (map (\<lambda>(p0, p1, p2). (- p0, - p1, - p2)) (landmarks p)) [0..<21] st3 = Inr st4"
    using drawFingerNodes_upt[of 21 "landmarks p" st3] len
    by (simp add: st4_def st3_def st1_def del: upt_rec_numeral)
  have "length (children (nodeGroup st4)) = 21" by (simp add: st4_def del: upt_rec_numeral)
  from initHandPose_defined[OF this]
  have lines: "initHandPose st4 =
     Inr (st4\<lparr>handLineGroup := \<lparr>children =
               new_lines (nextObjectId st + 21) (new_spheres (nextObjectId st) (landmarks p))\<rparr>,
             nextObjectId := nextObjectId st + 26\<rparr>)"
    by (simp add: st4_def st3_def st1_def del: upt_rec_numeral)
  have "frameLandmarks False (p # others) st =
     (case drawFingerNodes (map (\<lambda>(p0, p1, p2). (- p0, - p1, - p2)) (landmarks p)) [0..<21] st3 of
        Inl e \<Rightarrow> Inl e
      | Inr s4 \<Rightarrow> (case initHandPose s4 of Inl e \<Rightarrow> Inl e
          | Inr s5 \<Rightarrow> Inr (s5\<lparr>scene := scene_add HandLineGroup (scene_add NodeGroup (scene s5))\<rparr>)))"
    by (simp add: frameLandmarks_def Let_def drawKeypoints_trace[OF len] renderPointcloud_def
        removeMesh_eq st3_def st1_def del: upt_rec_numeral)
  also have "\<dots> = Inr (st\<lparr>ctx := ctx st @ frame_ops st (landmarks p),
             nodeGroup := \<lparr>children = new_spheres (nextObjectId st) (landmarks p)\<rparr>,
             handLineGroup := \<lparr>children =
               new_lines (nextObjectId st + 21) (new_spheres (nextObjectId st) (landmarks p))\<rparr>,
             scene := scene_add HandLineGroup (scene_add NodeGroup (scene st)),
             nextObjectId := nextObjectId st + 26\<rparr>)"
    unfolding nodes lines sum.case
    by (simp add: st4_def st3_def st1_def del: upt_rec_numeral)
  finally show ?thesis .
qed

section \<open>The 2D overlay renderer\<close>

lemma concat_blocks_nth:
  "(\<And>x. length (f x) = n) \<Longrightarrow> i < length xs \<Longrightarrow>
   take n (drop (n * i) (concat (map f xs))) = f (xs ! i)"
proof (induction xs arbitrary: i)
  case Nil
  then show ?case by simp
next
  case (Cons x xs)
  show ?case
  proof (cases i)
    case 0
    with Cons.prems(1)[of x] show ?thesis by simp
  next
    case (Suc j)
    with Cons.prems have "j < length xs" by simp
    from Cons.IH[OF Cons.prems(1) this] Cons.prems(1)[of x] Suc show ?thesis
      by (simp add: algebra_simps)
  qed
qed

lemma length_point_circle: "length (point_circle p) = 3"
  by (cases p) simp

lemma length_concat_point_circles: "length (concat (map point_circle kps)) = 3 * length kps"
  by (induction kps) (auto simp: length_point_circle)

text \<open>
  Claim C5. For every landmark \<open>(x, y, z)\<close> of a valid Landmark Set (21 entries), the
  keypoint renderer issues the operations of a filled circle, a path begun, an arc of
  radius 3 over the full angle around the centre \<open>(x - 2, y - 2)\<close>, and a fill: the first
  loop issues one such block per landmark in order, and the block of landmark \<open>i\<close>
  is the one at offset \<open>3 * i\<close>. The coordinates are those of the drawing context, which
  was mirrored once at setup.
\<close>

theorem C5_keypoint_circles:
  assumes "length kps = 21" and "i < 21" and "kps ! i = (x, y, z)"
  shows "\<exists>rest. drawKeypoints c kps =
            Inr (c @ concat (map (\<lambda>(x, y, z). [BeginPath, Arc (x - 2) (y - 2) 3 0 (2 * pi), Fill]) kps)
                   @ rest) \<and>
          take 3 (drop (3 * i)
            (concat (map (\<lambda>(x, y, z). [BeginPath, Arc (x - 2) (y - 2) 3 0 (2 * pi), Fill]) kps) @ rest))
            = [BeginPath, Arc (x - 2) (y - 2) 3 0 (2 * pi), Fill]"
proof -
  let ?rest = "map (\<lambda>(finger, idxs). finger_polyline kps idxs) fingerLookupIndices"
  have "3 * i + 3 \<le> length (concat (map point_circle kps))"
    using assms by (simp add: length_concat_point_circles)
  then have "take 3 (drop (3 * i) (concat (map point_circle kps) @ ?rest)) =
      take 3 (drop (3 * i) (concat (map point_circle kps)))"
    by simp
  also have "\<dots> = point_circle (kps ! i)"
    using concat_blocks_nth[of point_circle 3 i kps] assms by (simp add: length_point_circle)
  finally have "take 3 (drop (3 * i) (concat (map point_circle kps) @ ?rest)) =
      [BeginPath, Arc (x - 2) (y - 2) 3 0 (2 * pi), Fill]"
    using assms(3) by simp
  with drawKeypoints_trace[OF assms(1), of c] show ?thesis by blast
qed

text \<open>The sample hand, landmark 4 at \<open>(215, 295, -12)\<close>.\<close>

theorem C5_keypoint_circles_witness:
  "\<exists>rest. drawKeypoints [] sample_hand =
      Inr ([] @ concat (map (\<lambda>(x, y, z). [BeginPath, Arc (x - 2) (y - 2) 3 0 (2 * pi), Fill]) sample_hand)
             @ rest) \<and>
    take 3 (drop (3 * 4)
      (concat (map (\<lambda>(x, y, z). [BeginPath, Arc (x - 2) (y - 2) 3 0 (2 * pi), Fill]) sample_hand) @ rest))
      = [BeginPath, Arc (215 - 2) (295 - 2) 3 0 (2 * pi), Fill]"
  by (rule C5_keypoint_circles) (simp_all add: sample_hand_def)

lemma filter_point_draw_circles:
  "length (filter is_point_draw (concat (map point_circle kps))) = length kps"
  by (induction kps) (auto simp: is_point_draw_def)

lemma filter_polyline_draw_circles:
  "filter is_polyline_draw (concat (map point_circle kps)) = []"
  by (induction kps) auto

lemma polylines_table:
  "map (\<lambda>(finger, idxs). finger_polyline kps idxs) fingerLookupIndices =
     [finger_polyline kps thumb, finger_polyline kps indexFinger, finger_polyline kps middleFinger,
      finger_polyline kps ringFinger, finger_polyline kps pinky]"
  by (simp add: fingerLookupIndices_def)

lemma no_ClosePath_lineTos: "ClosePath \<notin> set (map (\<lambda>i. lineTo_of (kps ! i)) idxs)"
  by (induction idxs) (auto split: prod.splits)

lemma no_ClosePath_polyline:
  "Stroke region = finger_polyline kps idxs \<Longrightarrow> ClosePath \<notin> set region"
  using no_ClosePath_lineTos[of kps "tl idxs"] by (auto split: prod.splits)

text \<open>
  Claim C6. For every valid Landmark Set (21 entries), one call of the keypoint
  renderer issues exactly 21 point draws and exactly 5 polyline draws; the polylines
  are those of the fingers in the order of the finger table, each from the finger's
  first landmark through its other landmarks, and no stroked path is closed.
\<close>

theorem C6_keypoint_draw_calls:
  assumes "length kps = 21"
  shows "\<exists>issued. drawKeypoints c kps = Inr (c @ issued) \<and>
           length (filter is_point_draw issued) = 21 \<and>
           length (filter is_polyline_draw issued) = 5 \<and>
           filter is_polyline_draw issued =
             map (\<lambda>(finger, idxs).
                    Stroke ((case kps ! hd idxs of (x, y, z) \<Rightarrow> MoveTo x y) #
                            map (\<lambda>i. case kps ! i of (x, y, z) \<Rightarrow> LineTo x y) (tl idxs)))
                 fingerLookupIndices \<and>
           (\<forall>region. Stroke region \<in> set issued \<longrightarrow> ClosePath \<notin> set region)"
proof -
  let ?circles = "concat (map point_circle kps)"
  let ?strokes = "map (\<lambda>(finger, idxs). finger_polyline kps idxs) fingerLookupIndices"
  have run: "drawKeypoints c kps = Inr (c @ (?circles @ ?strokes))"
    using drawKeypoints_trace[OF assms, of c] by simp
  have points: "length (filter is_point_draw (?circles @ ?strokes)) = 21"
    using assms by (simp add: filter_point_draw_circles polylines_table is_point_draw_def)
  have lines: "filter is_polyline_draw (?circles @ ?strokes) = ?strokes"
    by (simp add: filter_polyline_draw_circles polylines_table)
  have five: "length ?strokes = 5"
    by (simp add: fingerLookupIndices_def)
  have "ClosePath \<notin> set region" if "Stroke region \<in> set (?circles @ ?strokes)" for region
  proof -
    from that have "Stroke region \<in> set (filter is_polyline_draw (?circles @ ?strokes))" by simp
    then have "Stroke region \<in> set ?strokes" unfolding lines .
    then obtain idxs where "Stroke region = finger_polyline kps idxs" by auto
    then show ?thesis by (rule no_ClosePath_polyline)
  qed
  with run points lines five show ?thesis by (intro exI[of _ "?circles @ ?strokes"]) simp
qed

theorem C6_keypoint_draw_calls_witness:
  "\<exists>issued. drawKeypoints [] sample_hand = Inr ([] @ issued) \<and>
     length (filter is_point_draw issued) = 21 \<and>
     length (filter is_polyline_draw issued) = 5"
  using C6_keypoint_draw_calls[of sample_hand "[]"] by (auto simp: sample_hand_def)

section \<open>The 3D hand visualizer\<close>

lemma new_spheres_nth:
  "i < 21 \<Longrightarrow> new_spheres n lms ! i = Mesh (n + i) (placed (lms ! i))"
  by (simp del: upt_rec_numeral)

text \<open>
  Claim C3. When the point cloud is rendered, the sphere of every landmark \<open>(x, y, z)\<close>
  of a valid Landmark Set is placed at the negated coordinates with \<open>VIDEO_WIDTH\<close> (640)
  added to x and \<open>VIDEO_HEIGHT\<close> (500) added to y, z staying negated, in a group that is
  a child of the scene; for the landmark \<open>(10, 20, 5)\<close> the position is exactly
  \<open>(630, 480, -5)\<close>.
\<close>

theorem C3_sphere_position:
  assumes "renderPointcloud mobile" and "length (landmarks p) = 21"
    and "i < 21" and "landmarks p ! i = (x, y, z)"
  shows "\<exists>st'. frameLandmarks mobile (p # others) st = Inr st' \<and>
           position (children (nodeGroup st') ! i) = (- x + VIDEO_WIDTH, - y + VIDEO_HEIGHT, - z) \<and>
           NodeGroup \<in> set (scene st') \<and>
           VIDEO_WIDTH = 640 \<and> VIDEO_HEIGHT = 500 \<and>
           ((x, y, z) = (10, 20, 5) \<longrightarrow>
              position (children (nodeGroup st') ! i) = (630, 480, - 5))"
proof -
  from assms(1) have m: "mobile = False" by (simp add: renderPointcloud_def)
  have "position (new_spheres (nextObjectId st) (landmarks p) ! i) =
      (- x + VIDEO_WIDTH, - y + VIDEO_HEIGHT, - z)"
    using assms(3,4) by (simp add: new_spheres_nth del: upt_rec_numeral)
  with frameLandmarks_hand[OF assms(2), of others st] m show ?thesis
    by (auto simp: VIDEO_WIDTH_def VIDEO_HEIGHT_def scene_add_def simp del: upt_rec_numeral)
qed

theorem C3_sphere_position_witness:
  "\<exists>st'. frameLandmarks False (\<lparr>landmarks = replicate 21 (10, 20, 5)\<rparr> # [])
            (landmarksRealTime False 640 500 ''inline-block'') = Inr st' \<and>
         position (children (nodeGroup st') ! 7) = (630, 480, - 5)"
  using C3_sphere_position[of False "\<lparr>landmarks = replicate 21 (10, 20, 5)\<rparr>" 7 10 20 5 "[]"
      "landmarksRealTime False 640 500 ''inline-block''"]
  by (auto simp: renderPointcloud_def)


lemma finger_table_cases:
  "k < 5 \<Longrightarrow> k = 0 \<or> k = 1 \<or> k = 2 \<or> k = 3 \<or> k = (4::nat)"
  by arith

lemma finger_table_nth:
  "snd (fingerLookupIndices ! 0) = thumb" "snd (fingerLookupIndices ! Suc 0) = indexFinger"
  "snd (fingerLookupIndices ! 2) = middleFinger" "snd (fingerLookupIndices ! 3) = ringFinger"
  "snd (fingerLookupIndices ! 4) = pinky"
  by (simp_all add: fingerLookupIndices_def)

lemma finger_entry_shape:
  "k < 5 \<Longrightarrow> length (snd (fingerLookupIndices ! k)) = 5 \<and> hd (snd (fingerLookupIndices ! k)) = 0"
  using finger_table_cases[of k]
  by (auto simp: finger_table_nth thumb_def indexFinger_def middleFinger_def ringFinger_def pinky_def)

text \<open>
  Claim C4. When the point cloud is rendered for a valid Landmark Set, the line built
  for the finger at each place \<open>k\<close> of the finger table has exactly 5 points: the first
  is the position of the wrist sphere (child 0), the remaining four are the positions
  of the spheres at the finger's other table indices in order; for the thumb these are
  the positions of the children 0, 1, 2, 3, 4 in that order.
\<close>

theorem C4_finger_line_points:
  assumes "renderPointcloud mobile" and "length (landmarks p) = 21" and "k < 5"
  shows "\<exists>st' pts. frameLandmarks mobile (p # others) st = Inr st' \<and>
           length (children (handLineGroup st')) = 5 \<and>
           children (handLineGroup st') ! k = Line (nextObjectId st + 21 + k) pts \<and>
           length pts = 5 \<and>
           hd pts = position (children (nodeGroup st') ! 0) \<and>
           tl pts = map (\<lambda>i. position (children (nodeGroup st') ! i))
                      (tl (snd (fingerLookupIndices ! k))) \<and>
           pts = map (\<lambda>i. position (children (nodeGroup st') ! i)) (snd (fingerLookupIndices ! k)) \<and>
           (k = 0 \<longrightarrow> pts = map (\<lambda>i. position (children (nodeGroup st') ! i)) [0, 1, 2, 3, 4])"
proof -
  from assms(1) have m: "mobile = False" by (simp add: renderPointcloud_def)
  let ?cs = "new_spheres (nextObjectId st) (landmarks p)"
  let ?idxs = "snd (fingerLookupIndices ! k)"
  let ?pts = "map (\<lambda>i. position (?cs ! i)) ?idxs"
  let ?st' = "st\<lparr>ctx := ctx st @ frame_ops st (landmarks p),
             nodeGroup := \<lparr>children = ?cs\<rparr>,
             handLineGroup := \<lparr>children = new_lines (nextObjectId st + 21) ?cs\<rparr>,
             scene := scene_add HandLineGroup (scene_add NodeGroup (scene st)),
             nextObjectId := nextObjectId st + 26\<rparr>"
  have run: "frameLandmarks mobile (p # others) st = Inr ?st'"
    unfolding m by (rule frameLandmarks_hand[OF assms(2)])
  have nth: "new_lines (nextObjectId st + 21) ?cs ! k = Line (nextObjectId st + 21 + k) ?pts"
    using finger_table_cases[OF assms(3)] by (auto simp: finger_table_nth simp del: upt_rec_numeral)
  from finger_entry_shape[OF assms(3)] have ne: "?idxs \<noteq> []" and hd0: "hd ?idxs = 0"
    by auto
  have thumb0: "k = 0 \<Longrightarrow> ?idxs = [0, 1, 2, 3, 4]"
    by (simp add: finger_table_nth thumb_def)
  have "length (children (handLineGroup ?st')) = 5" by (simp del: upt_rec_numeral)
  moreover have "children (handLineGroup ?st') ! k = Line (nextObjectId st + 21 + k) ?pts"
    using nth by (simp del: upt_rec_numeral)
  moreover have "length ?pts = 5" using finger_entry_shape[OF assms(3)] by simp
  moreover have "hd ?pts = position (children (nodeGroup ?st') ! 0)"
    using ne hd0 by (simp add: hd_map del: upt_rec_numeral)
  moreover have "tl ?pts = map (\<lambda>i. position (children (nodeGroup ?st') ! i)) (tl ?idxs)"
    by (simp add: map_tl del: upt_rec_numeral)
  moreover have "?pts = map (\<lambda>i. position (children (nodeGroup ?st') ! i)) ?idxs"
    by (simp del: upt_rec_numeral)
  moreover have "k = 0 \<longrightarrow> ?pts = map (\<lambda>i. position (children (nodeGroup ?st') ! i)) [0, 1, 2, 3, 4]"
    using thumb0 by (simp del: upt_rec_numeral)
  ultimately show ?thesis using run by blast
qed

theorem C4_finger_line_points_witness:
  "\<exists>st' pts. frameLandmarks False (sample_prediction # []) (landmarksRealTime False 640 500 ''inline-block'')
       = Inr st' \<and>
     length (children (handLineGroup st')) = 5 \<and>
     line_points (children (handLineGroup st') ! 0) = pts \<and>
     length pts = 5 \<and>
     hd pts = position (children (nodeGroup st') ! 0)"
proof -
  have rp: "renderPointcloud False" by (simp add: renderPointcloud_def)
  have len: "length (landmarks sample_prediction) = 21"
    by (simp add: sample_prediction_def sample_hand_def)
  have k: "(0::nat) < 5" by simp
  define st where "st = landmarksRealTime False 640 500 ''inline-block''"
  from C4_finger_line_points[OF rp len k, of "[]" st]
  obtain st' pts where
    run: "frameLandmarks False (sample_prediction # []) st = Inr st'" and
    n: "length (children (handLineGroup st')) = 5" and
    c: "children (handLineGroup st') ! 0 = Line (nextObjectId st + 21 + 0) pts" and
    l: "length pts = 5" and h: "hd pts = position (children (nodeGroup st') ! 0)"
    by blast
  from c have "line_points (children (handLineGroup st') ! 0) = pts" by simp
  with run n l h show ?thesis unfolding st_def by blast
qed

lemma spec_transformed_nth:
  "i < length lms \<Longrightarrow> spec_transformed lms ! i = placed (lms ! i)"
  by (simp add: spec_transformed_def spec_offset_def spec_negate_def split: prod.splits)

lemma finger_indices_bound:
  "\<forall>i \<in> set thumb. i < 21" "\<forall>i \<in> set indexFinger. i < 21" "\<forall>i \<in> set middleFinger. i < 21"
  "\<forall>i \<in> set ringFinger. i < 21" "\<forall>i \<in> set pinky. i < 21"
  by (simp_all add: thumb_def indexFinger_def middleFinger_def ringFinger_def pinky_def)

lemma readback_eq_direct:
  assumes "length lms = 21" and "\<forall>i \<in> set idxs. i < 21"
  shows "map (\<lambda>i. position (new_spheres n lms ! i)) idxs = map (\<lambda>i. spec_transformed lms ! i) idxs"
proof (rule map_cong[OF refl])
  fix i assume "i \<in> set idxs"
  with assms(2) have i: "i < 21" by simp
  then have "position (new_spheres n lms ! i) = placed (lms ! i)"
    by (simp add: new_spheres_nth del: upt_rec_numeral)
  also have "\<dots> = spec_transformed lms ! i"
    using i assms(1) by (simp add: spec_transformed_nth)
  finally show "position (new_spheres n lms ! i) = spec_transformed lms ! i" .
qed

lemma new_lines_readback:
  assumes "length lms = 21"
  shows "map line_points (new_lines m (new_spheres n lms)) = spec_finger_lines lms"
proof -
  define cs where "cs = new_spheres n lms"
  note rb = readback_eq_direct[OF assms, of _ n, folded cs_def]
  have spec: "spec_finger_lines lms =
      [map (\<lambda>i. spec_transformed lms ! i) thumb, map (\<lambda>i. spec_transformed lms ! i) indexFinger,
       map (\<lambda>i. spec_transformed lms ! i) middleFinger, map (\<lambda>i. spec_transformed lms ! i) ringFinger,
       map (\<lambda>i. spec_transformed lms ! i) pinky]"
    by (simp add: spec_finger_lines_def fingerLookupIndices_def)
  have "map line_points (new_lines m cs) = spec_finger_lines lms"
    unfolding spec
    by (simp add: rb[OF finger_indices_bound(1)] rb[OF finger_indices_bound(2)]
        rb[OF finger_indices_bound(3)] rb[OF finger_indices_bound(4)]
        rb[OF finger_indices_bound(5)])
  then show ?thesis unfolding cs_def .
qed

text \<open>
  Claim C9. For every valid Landmark Set, the points of the five lines that the
  finger-line builder makes by reading back the positions of the spheres just created
  are, line by line and point by point, those of the direct construction that indexes
  the transformed coordinates (negate, then offset) with the finger table.
\<close>

theorem C9_readback_equals_direct:
  assumes "renderPointcloud mobile" and "length (landmarks p) = 21"
  shows "\<exists>st'. frameLandmarks mobile (p # others) st = Inr st' \<and>
           map line_points (children (handLineGroup st')) = spec_finger_lines (landmarks p)"
proof -
  from assms(1) have m: "mobile = False" by (simp add: renderPointcloud_def)
  let ?st' = "st\<lparr>ctx := ctx st @ frame_ops st (landmarks p),
             nodeGroup := \<lparr>children = new_spheres (nextObjectId st) (landmarks p)\<rparr>,
             handLineGroup := \<lparr>children =
               new_lines (nextObjectId st + 21) (new_spheres (nextObjectId st) (landmarks p))\<rparr>,
             scene := scene_add HandLineGroup (scene_add NodeGroup (scene st)),
             nextObjectId := nextObjectId st + 26\<rparr>"
  have run: "frameLandmarks mobile (p # others) st = Inr ?st'"
    unfolding m by (rule frameLandmarks_hand[OF assms(2)])
  have "children (handLineGroup ?st') =
      new_lines (nextObjectId st + 21) (new_spheres (nextObjectId st) (landmarks p))"
    by (simp del: upt_rec_numeral)
  then have "map line_points (children (handLineGroup ?st')) = spec_finger_lines (landmarks p)"
    using new_lines_readback[OF assms(2)] by (simp only:)
  with run show ?thesis by blast
qed

theorem C9_readback_equals_direct_witness:
  "\<exists>st'. frameLandmarks False (sample_prediction # []) (landmarksRealTime False 640 500 ''inline-block'')
       = Inr st' \<and>
     map line_points (children (handLineGroup st')) = spec_finger_lines (landmarks sample_prediction)"
  by (rule C9_readback_equals_direct)
     (simp_all add: renderPointcloud_def sample_prediction_def sample_hand_def)

section \<open>Camera setup\<close>

lemma setupCamera_unsupported:
  "mediaDevices (navigator env) = None \<or>
   (\<exists>md. mediaDevices (navigator env) = Some md \<and> getUserMedia md = None) \<Longrightarrow>
   setupCamera mobile env =
     Rejected (Error ''Browser API navigator.mediaDevices.getUserMedia not available'')"
  by (auto simp: setupCamera_def)

lemma setupCamera_denied:
  "mediaDevices (navigator env) = Some md \<Longrightarrow> getUserMedia md = Some request \<Longrightarrow>
   request \<lparr>audio = False,
            video = \<lparr>facingMode = ''user'',
                     width = (if mobile then None else Some VIDEO_WIDTH),
                     height = (if mobile then None else Some VIDEO_HEIGHT)\<rparr>\<rparr> = Rejected e \<Longrightarrow>
   setupCamera mobile env = Rejected e"
  by (simp add: setupCamera_def)

lemma main_camera_failure:
  "handpose_load env = Fulfilled m \<Longrightarrow> setupCamera mobile env = Rejected e \<Longrightarrow>
   main mobile env pg = (pg\<lparr>info_textContent := message e, info_display := ''block''\<rparr>, Rejected e)"
  by (simp add: main_def loadVideo_def)

text \<open>
  Claim C7. Camera setup fails with the error whose message names the missing
  \<^verbatim>\<open>navigator.mediaDevices.getUserMedia\<close> API whenever the platform has no
  \<^verbatim>\<open>mediaDevices\<close> or no \<^verbatim>\<open>getUserMedia\<close>, and with the browser's error when the
  request for the stream is rejected. For every failure of camera setup, \<^verbatim>\<open>main\<close>
  writes the error's message to the \<^verbatim>\<open>info\<close> element, sets its display to
  \<^verbatim>\<open>block\<close>, rejects with the same error, and does not start the frame loop.
\<close>

theorem C7_camera_setup_failure:
  "((mediaDevices (navigator env) = None \<or>
     (\<exists>md. mediaDevices (navigator env) = Some md \<and> getUserMedia md = None)) \<longrightarrow>
      setupCamera mobile env =
        Rejected (Error ''Browser API navigator.mediaDevices.getUserMedia not available'')) \<and>
   (mediaDevices (navigator env) = Some md \<and> getUserMedia md = Some request \<and>
    request \<lparr>audio = False,
             video = \<lparr>facingMode = ''user'',
                      width = (if mobile then None else Some VIDEO_WIDTH),
                      height = (if mobile then None else Some VIDEO_HEIGHT)\<rparr>\<rparr> = Rejected e' \<longrightarrow>
      setupCamera mobile env = Rejected e') \<and>
   (handpose_load env = Fulfilled m \<and> setupCamera mobile env = Rejected e \<longrightarrow>
      main mobile env pg =
        (pg\<lparr>info_textContent := message e, info_display := ''block''\<rparr>, Rejected e) \<and>
      info_textContent (fst (main mobile env pg)) = message e \<and>
      info_display (fst (main mobile env pg)) = ''block'' \<and>
      snd (main mobile env pg) = Rejected e \<and>
      frameLoopStarted (fst (main mobile env pg)) = frameLoopStarted pg)"
  using setupCamera_unsupported[of env mobile] setupCamera_denied[of env md request mobile e']
    main_camera_failure[of env m mobile e pg]
  by auto

theorem C7_camera_setup_failure_witness:
  "setupCamera False sample_browser_unsupported =
     Rejected (Error ''Browser API navigator.mediaDevices.getUserMedia not available'') \<and>
   main False sample_browser_unsupported sample_page =
     (sample_page\<lparr>info_textContent := ''Browser API navigator.mediaDevices.getUserMedia not available'',
                  info_display := ''block''\<rparr>,
      Rejected (Error ''Browser API navigator.mediaDevices.getUserMedia not available'')) \<and>
   frameLoopStarted (fst (main False sample_browser_unsupported sample_page)) = False \<and>
   main False sample_browser_denied sample_page =
     (sample_page\<lparr>info_textContent := ''Permission denied'', info_display := ''block''\<rparr>,
      Rejected (DOMException ''NotAllowedError'' ''Permission denied'')) \<and>
   frameLoopStarted (fst (main False sample_browser_denied sample_page)) = False"
proof -
  let ?api = "Error ''Browser API navigator.mediaDevices.getUserMedia not available''"
  let ?denied = "DOMException ''NotAllowedError'' ''Permission denied''"
  let ?md = "\<lparr>getUserMedia = Some (\<lambda>c. Rejected ?denied)\<rparr>"
  have un: "mediaDevices (navigator sample_browser_unsupported) = None"
    by (simp add: sample_browser_unsupported_def)
  have ld: "handpose_load sample_browser_unsupported = Fulfilled ()"
    by (simp add: sample_browser_unsupported_def)
  note c7 = C7_camera_setup_failure[where env = sample_browser_unsupported and mobile = False
      and m = "()" and e = ?api and pg = sample_page]
  from c7 un have rej: "setupCamera False sample_browser_unsupported = Rejected ?api"
    by blast
  from c7 ld rej have m1:
    "main False sample_browser_unsupported sample_page =
     (sample_page\<lparr>info_textContent := message ?api, info_display := ''block''\<rparr>, Rejected ?api)"
    "frameLoopStarted (fst (main False sample_browser_unsupported sample_page)) = frameLoopStarted sample_page"
    by blast+
  have dn: "mediaDevices (navigator sample_browser_denied) = Some ?md"
      "getUserMedia ?md = Some (\<lambda>c. Rejected ?denied)"
      "handpose_load sample_browser_denied = Fulfilled ()"
    by (simp_all add: sample_browser_denied_def)
  note c7d = C7_camera_setup_failure[where env = sample_browser_denied and mobile = False
      and md = ?md and request = "\<lambda>c. Rejected ?denied" and e' = ?denied
      and m = "()" and e = ?denied and pg = sample_page]
  from c7d dn have rejd: "setupCamera False sample_browser_denied = Rejected ?denied"
    by blast
  from c7d dn(3) rejd have m2:
    "main False sample_browser_denied sample_page =
     (sample_page\<lparr>info_textContent := message ?denied, info_display := ''block''\<rparr>, Rejected ?denied)"
    "frameLoopStarted (fst (main False sample_browser_denied sample_page)) = frameLoopStarted sample_page"
    by blast+
  from rej m1 m2 show ?thesis by (simp add: sample_page_def)
qed

section \<open>The debug panel does not reach the frame handler\<close>

lemma drawFingerNode_gui:
  "drawFingerNode x y z (with_gui a b st) = with_gui a b (drawFingerNode x y z st)"
  by (simp add: drawFingerNode_def Let_def)

lemma drawFingerNodes_gui:
  "drawFingerNodes pd idxs (with_gui a b st) = map_sum id (with_gui a b) (drawFingerNodes pd idxs st)"
  by (induction idxs arbitrary: st) (auto simp: drawFingerNode_gui split: option.splits)

lemma drawFingerMesh_gui:
  "drawFingerMesh pts idx1 idx2 (with_gui a b st) =
     map_sum id (with_gui a b) (drawFingerMesh pts idx1 idx2 st)"
  by (simp add: drawFingerMesh_def split: sum.splits)

lemma initHandPose_gui:
  "initHandPose (with_gui a b st) = map_sum id (with_gui a b) (initHandPose st)"
  unfolding initHandPose_def
  by (simp add: drawFingerMesh_gui split: sum.splits)

lemma frameLandmarks_gui:
  "frameLandmarks mobile predictions (with_gui a b st) =
     map_sum id (with_gui a b) (frameLandmarks mobile predictions st)"
proof (cases predictions)
  case Nil
  then show ?thesis by (simp add: frameLandmarks_def)
next
  case (Cons p others)
  define build where "build = (\<lambda>s3.
      case drawFingerNodes (map (\<lambda>(p0, p1, p2). (- p0, - p1, - p2)) (landmarks p)) [0..<21] s3 of
        Inl e \<Rightarrow> Inl e
      | Inr s4 \<Rightarrow> (case initHandPose s4 of
            Inl e \<Rightarrow> Inl e
          | Inr s5 \<Rightarrow> Inr (s5\<lparr>scene := scene_add HandLineGroup (scene_add NodeGroup (scene s5))\<rparr>)))"
  define c0 where "c0 = ctx st @
      [DrawImage (videoWidth st) (videoHeight st) (canvas_width st) (canvas_height st)]"
  define after where "after = (\<lambda>s c'.
      if renderPointcloud mobile
      then build (s\<lparr>ctx := c', nodeGroup := removeMesh (nodeGroup s),
                      handLineGroup := removeMesh (handLineGroup s)\<rparr>)
      else Inr (s\<lparr>ctx := c'\<rparr>))"
  have unfold: "frameLandmarks mobile (p # others) s =
      (case drawKeypoints (ctx s @
          [DrawImage (videoWidth s) (videoHeight s) (canvas_width s) (canvas_height s)]) (landmarks p) of
         Inl e \<Rightarrow> Inl e
       | Inr c' \<Rightarrow> after s c')" for s
    by (simp add: frameLandmarks_def Let_def build_def after_def split: sum.splits
        del: upt_rec_numeral)
  have build_gui: "build (with_gui a b s) = map_sum id (with_gui a b) (build s)" for s
    unfolding build_def drawFingerNodes_gui
    by (cases "drawFingerNodes (map (\<lambda>(p0, p1, p2). (- p0, - p1, - p2)) (landmarks p)) [0..<21] s")
       (simp_all add: initHandPose_gui split: sum.splits del: upt_rec_numeral)
  have after_gui: "after (with_gui a b st) c' = map_sum id (with_gui a b) (after st c')" for c'
  proof (cases "renderPointcloud mobile")
    case True
    have "(with_gui a b st)\<lparr>ctx := c', nodeGroup := removeMesh (nodeGroup (with_gui a b st)),
              handLineGroup := removeMesh (handLineGroup (with_gui a b st))\<rparr> =
          with_gui a b (st\<lparr>ctx := c', nodeGroup := removeMesh (nodeGroup st),
              handLineGroup := removeMesh (handLineGroup st)\<rparr>)"
      by simp
    with True show ?thesis by (simp only: after_def if_True build_gui)
  next
    case False
    then show ?thesis by (simp add: after_def)
  qed
  have c0_gui: "ctx (with_gui a b st) @
      [DrawImage (videoWidth (with_gui a b st)) (videoHeight (with_gui a b st))
         (canvas_width (with_gui a b st)) (canvas_height (with_gui a b st))] = c0"
    by (simp add: c0_def)
  show ?thesis
    unfolding Cons unfold c0_gui
    by (cases "drawKeypoints c0 (landmarks p)") (simp_all add: after_gui c0_def)
qed


lemma toggle_as_update:
  "toggle_renderPointcloud mobile render st =
     with_gui (if renderPointcloud mobile then Some render else state_renderPointcloud st)
       (if renderPointcloud mobile then (if render then ''inline-block'' else ''none'')
        else scatter_gl_display st) st"
  by (simp add: toggle_renderPointcloud_def setupDatGui_onChange_def)

lemma frameLandmarks_toggle:
  "frameLandmarks mobile predictions (toggle_renderPointcloud mobile render st) =
     map_sum id (toggle_renderPointcloud mobile render) (frameLandmarks mobile predictions st)"
proof (cases "frameLandmarks mobile predictions st")
  case (Inl e)
  then show ?thesis unfolding toggle_as_update[of mobile render st] frameLandmarks_gui by simp
next
  case (Inr st')
  have keep: "state_renderPointcloud st' = state_renderPointcloud st \<and>
      scatter_gl_display st' = scatter_gl_display st"
  proof -
    have "frameLandmarks mobile predictions
            (with_gui (state_renderPointcloud st) (scatter_gl_display st) st) =
          map_sum id (with_gui (state_renderPointcloud st) (scatter_gl_display st))
            (frameLandmarks mobile predictions st)"
      by (rule frameLandmarks_gui)
    with Inr have "st' = with_gui (state_renderPointcloud st) (scatter_gl_display st) st'" by simp
    then show ?thesis
      by (metis hand_state.select_convs(10) hand_state.select_convs(11) hand_state.surjective
          hand_state.update_convs(10) hand_state.update_convs(11))
  qed
  show ?thesis
    unfolding toggle_as_update[of mobile render st] frameLandmarks_gui Inr
    by (simp add: toggle_as_update keep)
qed

text \<open>
  Claim C8. Setting the point-cloud control, to either value, changes nothing that the
  frame handler reads or writes: the canvas, the two groups, the scene and the object
  counter are as before, and on a target that has the control the container's display
  style becomes \<^verbatim>\<open>inline-block\<close> or \<^verbatim>\<open>none\<close>. The frame handler commutes with the
  control, so two runs that differ only in the value set give the same canvas
  operations, the same groups and the same sphere and line counts.
\<close>

theorem C8_toggle_only_changes_display:
  "ctx (toggle_renderPointcloud mobile render st) = ctx st \<and>
   nodeGroup (toggle_renderPointcloud mobile render st) = nodeGroup st \<and>
   handLineGroup (toggle_renderPointcloud mobile render st) = handLineGroup st \<and>
   scene (toggle_renderPointcloud mobile render st) = scene st \<and>
   nextObjectId (toggle_renderPointcloud mobile render st) = nextObjectId st \<and>
   scatter_gl_display (toggle_renderPointcloud False render st) =
     (if render then ''inline-block'' else ''none'') \<and>
   frameLandmarks mobile predictions (toggle_renderPointcloud mobile render st) =
     map_sum id (toggle_renderPointcloud mobile render) (frameLandmarks mobile predictions st) \<and>
   map_sum id ctx (frameLandmarks mobile predictions (toggle_renderPointcloud mobile True st)) =
     map_sum id ctx (frameLandmarks mobile predictions (toggle_renderPointcloud mobile False st)) \<and>
   map_sum id nodeGroup (frameLandmarks mobile predictions (toggle_renderPointcloud mobile True st)) =
     map_sum id nodeGroup (frameLandmarks mobile predictions (toggle_renderPointcloud mobile False st)) \<and>
   map_sum id handLineGroup (frameLandmarks mobile predictions (toggle_renderPointcloud mobile True st)) =
     map_sum id handLineGroup (frameLandmarks mobile predictions (toggle_renderPointcloud mobile False st)) \<and>
   map_sum id sphere_count (frameLandmarks mobile predictions (toggle_renderPointcloud mobile True st)) =
     map_sum id sphere_count (frameLandmarks mobile predictions (toggle_renderPointcloud mobile False st)) \<and>
   map_sum id line_count (frameLandmarks mobile predictions (toggle_renderPointcloud mobile True st)) =
     map_sum id line_count (frameLandmarks mobile predictions (toggle_renderPointcloud mobile False st))"
proof -
  have fields: "ctx (toggle_renderPointcloud m r s) = ctx s"
    "nodeGroup (toggle_renderPointcloud m r s) = nodeGroup s"
    "handLineGroup (toggle_renderPointcloud m r s) = handLineGroup s"
    "scene (toggle_renderPointcloud m r s) = scene s"
    "nextObjectId (toggle_renderPointcloud m r s) = nextObjectId s" for m r s
    by (simp_all add: toggle_as_update)
  have counts: "sphere_count (toggle_renderPointcloud m r s) = sphere_count s"
    "line_count (toggle_renderPointcloud m r s) = line_count s" for m r s
    by (simp_all add: sphere_count_def line_count_def scene_objects_def fields)
  have disp: "scatter_gl_display (toggle_renderPointcloud False render st) =
     (if render then ''inline-block'' else ''none'')"
    by (simp add: toggle_as_update renderPointcloud_def)
  have proj: "map_sum id f (frameLandmarks mobile predictions (toggle_renderPointcloud mobile r st)) =
      map_sum id f (frameLandmarks mobile predictions st)"
    if "\<And>s. f (toggle_renderPointcloud mobile r s) = f s" for f :: "hand_state \<Rightarrow> 'b" and r
    unfolding frameLandmarks_toggle
    by (cases "frameLandmarks mobile predictions st") (simp_all add: that)
  show ?thesis
    unfolding proj[of ctx, OF fields(1)] proj[of nodeGroup, OF fields(2)]
      proj[of handLineGroup, OF fields(3)] proj[of sphere_count, OF counts(1)]
      proj[of line_count, OF counts(2)]
    using fields[of mobile render st] disp frameLandmarks_toggle[of mobile predictions render st]
    by simp
qed


theorem C8_toggle_only_changes_display_witness:
  "scatter_gl_display (toggle_renderPointcloud False False
      (landmarksRealTime False 640 500 ''inline-block'')) = ''none'' \<and>
   map_sum id sphere_count (frameLandmarks False [sample_prediction]
      (toggle_renderPointcloud False True (landmarksRealTime False 640 500 ''inline-block''))) =
   map_sum id sphere_count (frameLandmarks False [sample_prediction]
      (toggle_renderPointcloud False False (landmarksRealTime False 640 500 ''inline-block''))) \<and>
   map_sum id line_count (frameLandmarks False [sample_prediction]
      (toggle_renderPointcloud False True (landmarksRealTime False 640 500 ''inline-block''))) =
   map_sum id line_count (frameLandmarks False [sample_prediction]
      (toggle_renderPointcloud False False (landmarksRealTime False 640 500 ''inline-block'')))"
  using C8_toggle_only_changes_display[of False False "landmarksRealTime False 640 500 ''inline-block''"
      "[sample_prediction]"]
  by simp

section \<open>Counting the objects of a frame\<close>

lemma filter_sphere_meshes:
  "filter is_sphere (map (\<lambda>i. Mesh (f i) (g i)) xs) = map (\<lambda>i. Mesh (f i) (g i)) xs"
  by (induction xs) auto

lemma filter_line_meshes: "filter is_line (map (\<lambda>i. Mesh (f i) (g i)) xs) = []"
  by (induction xs) auto

lemma new_spheres_counts:
  "length (new_spheres n lms) = 21"
  "length (filter is_sphere (new_spheres n lms)) = 21"
  "filter is_line (new_spheres n lms) = []"
  by (simp_all add: filter_sphere_meshes filter_line_meshes del: upt_rec_numeral)

lemma new_lines_counts:
  "length (new_lines m cs) = 5"
  "length (filter is_line (new_lines m cs)) = 5"
  "filter is_sphere (new_lines m cs) = []"
  by simp_all

lemma new_spheres_ids:
  "x \<in> set (new_spheres n lms) \<Longrightarrow> n \<le> object_id x \<and> object_id x < n + 21"
  by (auto simp del: upt_rec_numeral)

lemma new_lines_ids:
  "x \<in> set (new_lines m cs) \<Longrightarrow> m \<le> object_id x \<and> object_id x < m + 5"
  by auto

lemma new_spheres_disjoint:
  "set (new_spheres (n + 26) lms2) \<inter> set (new_spheres n lms1) = {}"
proof -
  have False if "x \<in> set (new_spheres (n + 26) lms2)" "x \<in> set (new_spheres n lms1)" for x
    using new_spheres_ids[OF that(1)] new_spheres_ids[OF that(2)] by simp
  then show ?thesis by blast
qed

lemma new_lines_disjoint:
  "set (new_lines (m + 26) cs2) \<inter> set (new_lines m cs1) = {}"
proof -
  have False if "x \<in> set (new_lines (m + 26) cs2)" "x \<in> set (new_lines m cs1)" for x
    using new_lines_ids[OF that(1)] new_lines_ids[OF that(2)] by simp
  then show ?thesis by blast
qed

lemma scene_after_hand:
  "NodeGroup \<in> set (scene_add HandLineGroup (scene_add NodeGroup cs))"
  "HandLineGroup \<in> set (scene_add HandLineGroup (scene_add NodeGroup cs))"
  by (simp_all add: scene_add_def)

lemma hand_frame_fields:
  "children (nodeGroup (hand_frame st lms)) = new_spheres (nextObjectId st) lms"
  "children (handLineGroup (hand_frame st lms)) =
     new_lines (nextObjectId st + 21) (new_spheres (nextObjectId st) lms)"
  "nextObjectId (hand_frame st lms) = nextObjectId st + 26"
  "scene (hand_frame st lms) = scene_add HandLineGroup (scene_add NodeGroup (scene st))"
  by (simp_all del: upt_rec_numeral)

lemma hand_frame_scene_objects:
  "scene_objects (hand_frame st lms) =
     new_spheres (nextObjectId st) lms @
     new_lines (nextObjectId st + 21) (new_spheres (nextObjectId st) lms)"
  unfolding scene_objects_def hand_frame_fields using scene_after_hand by simp

lemma hand_frame_counts:
  "sphere_count (hand_frame st lms) = 21" "line_count (hand_frame st lms) = 5"
  unfolding sphere_count_def line_count_def hand_frame_scene_objects filter_append length_append
    new_spheres_counts new_lines_counts
  by simp_all

lemma frameLandmarks_none_counts:
  "scene_objects (st\<lparr>ctx := c\<rparr>) = scene_objects st"
  "sphere_count (st\<lparr>ctx := c\<rparr>) = sphere_count st"
  "line_count (st\<lparr>ctx := c\<rparr>) = line_count st"
  by (simp_all add: scene_objects_def sphere_count_def line_count_def)

lemma initial_counts:
  "sphere_count (landmarksRealTime mobile vw vh d) = 0"
  "line_count (landmarksRealTime mobile vw vh d) = 0"
  by (simp_all add: sphere_count_def line_count_def scene_objects_def landmarksRealTime_def)

lemma sample_length: "length (landmarks sample_prediction) = 21"
  by (simp add: sample_prediction_def sample_hand_def)


lemma frameLandmarks_hand_frame:
  "length (landmarks p) = 21 \<Longrightarrow>
   frameLandmarks False (p # others) st = Inr (hand_frame st (landmarks p))"
  by (rule frameLandmarks_hand)

text \<open>
  On a mobile target \<^verbatim>\<open>renderPointcloud\<close> is false and the frame handler builds no 3D
  objects: the first frame with the sample hand, a valid Landmark Set, leaves both
  groups empty.
\<close>

theorem C2_counterexample:
  "length (landmarks sample_prediction) = 21 \<and>
   map_sum id (length \<circ> children \<circ> nodeGroup)
     (frameLandmarks True [sample_prediction] (landmarksRealTime True 640 500 ''inline-block'')) = Inr 0 \<and>
   map_sum id (length \<circ> children \<circ> handLineGroup)
     (frameLandmarks True [sample_prediction] (landmarksRealTime True 640 500 ''inline-block'')) = Inr 0"
  unfolding frameLandmarks_mobile[OF sample_length]
  by (simp add: sample_length landmarksRealTime_def)

text \<open>
  Claim C2, as the code has it. When the point cloud is rendered (a target that is not
  mobile), for every valid Landmark Set one invocation of the frame handler with a
  prediction leaves exactly 21 objects, all spheres, in the node group and exactly 5
  objects, all lines, in the line group, whatever the groups held before: the result is
  the one obtained from emptied groups. After a second such invocation the counts are
  again 21 and 5 and no object of the first invocation is left in either group.
\<close>

theorem C2_objects_rebuilt_each_frame:
  assumes "renderPointcloud mobile"
    and "length (landmarks p1) = 21" and "length (landmarks p2) = 21"
  shows "\<exists>s1 s2.
      frameLandmarks mobile (p1 # others1) st = Inr s1 \<and>
      frameLandmarks mobile (p2 # others2) s1 = Inr s2 \<and>
      length (children (nodeGroup s1)) = 21 \<and>
      length (filter is_sphere (children (nodeGroup s1))) = 21 \<and>
      length (children (handLineGroup s1)) = 5 \<and>
      length (filter is_line (children (handLineGroup s1))) = 5 \<and>
      length (children (nodeGroup s2)) = 21 \<and>
      length (filter is_sphere (children (nodeGroup s2))) = 21 \<and>
      length (children (handLineGroup s2)) = 5 \<and>
      length (filter is_line (children (handLineGroup s2))) = 5 \<and>
      set (children (nodeGroup s2)) \<inter> set (children (nodeGroup s1)) = {} \<and>
      set (children (handLineGroup s2)) \<inter> set (children (handLineGroup s1)) = {} \<and>
      sphere_count s1 = 21 \<and> line_count s1 = 5 \<and>
      sphere_count s2 = 21 \<and> line_count s2 = 5 \<and>
      map_sum id nodeGroup
        (frameLandmarks mobile (p1 # others1)
           (st\<lparr>nodeGroup := \<lparr>children = []\<rparr>, handLineGroup := \<lparr>children = []\<rparr>\<rparr>)) =
        Inr (nodeGroup s1) \<and>
      map_sum id handLineGroup
        (frameLandmarks mobile (p1 # others1)
           (st\<lparr>nodeGroup := \<lparr>children = []\<rparr>, handLineGroup := \<lparr>children = []\<rparr>\<rparr>)) =
        Inr (handLineGroup s1)"
proof -
  from assms(1) have m: "mobile = False" by (simp add: renderPointcloud_def)
  define s1 where "s1 = hand_frame st (landmarks p1)"
  define s2 where "s2 = hand_frame s1 (landmarks p2)"
  define st0 where "st0 = st\<lparr>nodeGroup := \<lparr>children = []\<rparr>, handLineGroup := \<lparr>children = []\<rparr>\<rparr>"
  have run1: "frameLandmarks mobile (p1 # others1) st = Inr s1"
    unfolding m s1_def by (rule frameLandmarks_hand_frame[OF assms(2)])
  have run2: "frameLandmarks mobile (p2 # others2) s1 = Inr s2"
    unfolding m s2_def by (rule frameLandmarks_hand_frame[OF assms(3)])
  have run0: "frameLandmarks mobile (p1 # others1) st0 = Inr (hand_frame st0 (landmarks p1))"
    unfolding m by (rule frameLandmarks_hand_frame[OF assms(2)])
  have c1: "children (nodeGroup s1) = new_spheres (nextObjectId st) (landmarks p1)"
    and l1: "children (handLineGroup s1) =
        new_lines (nextObjectId st + 21) (new_spheres (nextObjectId st) (landmarks p1))"
    and n1: "nextObjectId s1 = nextObjectId st + 26"
    unfolding s1_def by (rule hand_frame_fields)+
  have c2: "children (nodeGroup s2) = new_spheres (nextObjectId st + 26) (landmarks p2)"
    and l2: "children (handLineGroup s2) =
        new_lines (nextObjectId st + 21 + 26)
          (new_spheres (nextObjectId st + 26) (landmarks p2))"
    unfolding s2_def hand_frame_fields n1 by (simp_all add: add.commute add.left_commute)
  have g0: "nodeGroup (hand_frame st0 (landmarks p1)) = nodeGroup s1"
    "handLineGroup (hand_frame st0 (landmarks p1)) = handLineGroup s1"
    by (simp_all add: st0_def s1_def del: upt_rec_numeral)
  have "length (children (nodeGroup s1)) = 21"
    "length (filter is_sphere (children (nodeGroup s1))) = 21"
    "length (children (handLineGroup s1)) = 5"
    "length (filter is_line (children (handLineGroup s1))) = 5"
    "length (children (nodeGroup s2)) = 21"
    "length (filter is_sphere (children (nodeGroup s2))) = 21"
    "length (children (handLineGroup s2)) = 5"
    "length (filter is_line (children (handLineGroup s2))) = 5"
    unfolding c1 l1 c2 l2 by (rule new_spheres_counts new_lines_counts)+
  moreover have "set (children (nodeGroup s2)) \<inter> set (children (nodeGroup s1)) = {}"
    unfolding c1 c2 by (rule new_spheres_disjoint)
  moreover have "set (children (handLineGroup s2)) \<inter> set (children (handLineGroup s1)) = {}"
    unfolding l1 l2 by (rule new_lines_disjoint)
  moreover have "sphere_count s1 = 21" "line_count s1 = 5" "sphere_count s2 = 21" "line_count s2 = 5"
    unfolding s1_def s2_def by (rule hand_frame_counts)+
  moreover have "map_sum id nodeGroup (frameLandmarks mobile (p1 # others1) st0) = Inr (nodeGroup s1)"
    "map_sum id handLineGroup (frameLandmarks mobile (p1 # others1) st0) = Inr (handLineGroup s1)"
    unfolding run0 using g0 by simp_all
  ultimately show ?thesis using run1 run2 unfolding st0_def by blast
qed

theorem C2_objects_rebuilt_each_frame_witness:
  "\<exists>s1 s2.
      frameLandmarks False (sample_prediction # []) (landmarksRealTime False 640 500 ''inline-block'')
        = Inr s1 \<and>
      frameLandmarks False (sample_prediction # []) s1 = Inr s2 \<and>
      length (children (nodeGroup s2)) = 21 \<and>
      length (children (handLineGroup s2)) = 5 \<and>
      set (children (nodeGroup s2)) \<inter> set (children (nodeGroup s1)) = {} \<and>
      sphere_count s2 = 21 \<and> line_count s2 = 5"
proof -
  have rp: "renderPointcloud False" by (simp add: renderPointcloud_def)
  from C2_objects_rebuilt_each_frame[OF rp sample_length sample_length, of "[]"
      "landmarksRealTime False 640 500 ''inline-block''" "[]"]
  show ?thesis by blast
qed

text \<open>
  A frame with the sample hand followed by a frame with no prediction, on a target that
  renders the point cloud: after the second frame the scene still holds the 21 spheres
  and 5 lines of the first.
\<close>

theorem C1_counterexample:
  "map_sum id sphere_count
     (frameLandmarks_loop False [[sample_prediction], []]
        (landmarksRealTime False 640 500 ''inline-block'')) = Inr 21 \<and>
   map_sum id line_count
     (frameLandmarks_loop False [[sample_prediction], []]
        (landmarksRealTime False 640 500 ''inline-block'')) = Inr 5"
proof -
  define st where "st = landmarksRealTime False 640 500 ''inline-block''"
  define s1 where "s1 = hand_frame st (landmarks sample_prediction)"
  have run1: "frameLandmarks False [sample_prediction] st = Inr s1"
    unfolding s1_def by (rule frameLandmarks_hand_frame[OF sample_length])
  have "frameLandmarks_loop False [[sample_prediction], []] st =
      Inr (s1\<lparr>ctx := ctx s1 @
            [DrawImage (videoWidth s1) (videoHeight s1) (canvas_width s1) (canvas_height s1)]\<rparr>)"
    by (simp add: run1 frameLandmarks_none)
  moreover have "sphere_count s1 = 21" "line_count s1 = 5"
    unfolding s1_def by (rule hand_frame_counts)+
  ultimately show ?thesis
    unfolding st_def[symmetric] by (simp add: frameLandmarks_none_counts)
qed

text \<open>
  Claim C1, as the code has it. A frame with zero predictions draws the video frame and
  nothing else, and leaves the groups, the scene and hence the sphere and line counts
  exactly as they were; they are zero at start-up, so they are zero after such a frame
  only if no hand has been built before. When the point cloud is rendered, the sphere
  count is 21 after every frame in which a hand with a valid Landmark Set was detected.
\<close>

theorem C1_absent_hand_leaves_scene:
  "(\<exists>st'. frameLandmarks mobile [] st = Inr st' \<and>
      ctx st' = ctx st @
        [DrawImage (videoWidth st) (videoHeight st) (canvas_width st) (canvas_height st)] \<and>
      nodeGroup st' = nodeGroup st \<and> handLineGroup st' = handLineGroup st \<and>
      scene st' = scene st \<and>
      scene_objects st' = scene_objects st \<and>
      sphere_count st' = sphere_count st \<and> line_count st' = line_count st) \<and>
   sphere_count (landmarksRealTime mobile vw vh d) = 0 \<and>
   line_count (landmarksRealTime mobile vw vh d) = 0 \<and>
   (renderPointcloud mobile \<and> length (landmarks p) = 21 \<longrightarrow>
      (\<exists>st'. frameLandmarks mobile (p # others) st = Inr st' \<and>
         sphere_count st' = 21 \<and> length (children (nodeGroup st')) = 21))"
proof -
  let ?st' = "st\<lparr>ctx := ctx st @
        [DrawImage (videoWidth st) (videoHeight st) (canvas_width st) (canvas_height st)]\<rparr>"
  have "frameLandmarks mobile [] st = Inr ?st'" by (rule frameLandmarks_none)
  moreover have "ctx ?st' = ctx st @
        [DrawImage (videoWidth st) (videoHeight st) (canvas_width st) (canvas_height st)]"
    "nodeGroup ?st' = nodeGroup st" "handLineGroup ?st' = handLineGroup st" "scene ?st' = scene st"
    by simp_all
  moreover have "scene_objects ?st' = scene_objects st" "sphere_count ?st' = sphere_count st"
    "line_count ?st' = line_count st"
    by (rule frameLandmarks_none_counts)+
  ultimately have absent: "\<exists>st'. frameLandmarks mobile [] st = Inr st' \<and>
      ctx st' = ctx st @
        [DrawImage (videoWidth st) (videoHeight st) (canvas_width st) (canvas_height st)] \<and>
      nodeGroup st' = nodeGroup st \<and> handLineGroup st' = handLineGroup st \<and>
      scene st' = scene st \<and>
      scene_objects st' = scene_objects st \<and>
      sphere_count st' = sphere_count st \<and> line_count st' = line_count st"
    by blast
  have present: "\<exists>st'. frameLandmarks mobile (p # others) st = Inr st' \<and>
         sphere_count st' = 21 \<and> length (children (nodeGroup st')) = 21"
    if "renderPointcloud mobile" "length (landmarks p) = 21"
  proof -
    from that(1) have m: "mobile = False" by (simp add: renderPointcloud_def)
    have "frameLandmarks mobile (p # others) st = Inr (hand_frame st (landmarks p))"
      unfolding m by (rule frameLandmarks_hand_frame[OF that(2)])
    moreover have "sphere_count (hand_frame st (landmarks p)) = 21" by (rule hand_frame_counts)
    moreover have "length (children (nodeGroup (hand_frame st (landmarks p)))) = 21"
      unfolding hand_frame_fields by (rule new_spheres_counts)
    ultimately show ?thesis by blast
  qed
  from absent present initial_counts[of mobile vw vh d] show ?thesis by blast
qed

theorem C1_absent_hand_leaves_scene_witness:
  "(\<exists>st'. frameLandmarks False [] (landmarksRealTime False 640 500 ''inline-block'') = Inr st' \<and>
      sphere_count st' = 0 \<and> line_count st' = 0) \<and>
   (\<exists>st'. frameLandmarks False (sample_prediction # [])
            (landmarksRealTime False 640 500 ''inline-block'') = Inr st' \<and>
      sphere_count st' = 21)"
proof -
  have rp: "renderPointcloud False" by (simp add: renderPointcloud_def)
  note c1 = C1_absent_hand_leaves_scene[of False "landmarksRealTime False 640 500 ''inline-block''"
      640 500 "''inline-block''" sample_prediction "[]"]
  from c1 have "\<exists>st'. frameLandmarks False [] (landmarksRealTime False 640 500 ''inline-block'') = Inr st' \<and>
      sphere_count st' = 0 \<and> line_count st' = 0"
    by metis
  moreover from c1 rp sample_length
  have "\<exists>st'. frameLandmarks False (sample_prediction # [])
            (landmarksRealTime False 640 500 ''inline-block'') = Inr st' \<and> sphere_count st' = 21"
    by blast
  ultimately show ?thesis by blast
qed

end
